theory Spec2Isabelle
  imports Main "HOL-Library.Sublist"
begin

section \<open>Values, errors and the world the detector reads\<close>

text \<open>
  The embedding follows \<^verbatim>\<open>scripts/env-detect.py\<close>, class \<^verbatim>\<open>EnvironmentDetector\<close>.
  A Python \<^verbatim>\<open>str\<close> is kept as the list of its UTF-8 bytes. A dictionary is an association
  list in insertion order, as Python iterates it. The host is taken to be a POSIX system:
  names are matched with regard to case and a path object is a \<^verbatim>\<open>PosixPath\<close>.
\<close>

text \<open>The values the detector stores in its findings.\<close>

datatype pyval =
    PNone
  | PBool bool
  | PInt int
  | PStr string
  | PList "pyval list"
  | PDict "(string \<times> pyval) list"
  | PPath string  \<comment> \<open>a \<^verbatim>\<open>pathlib.Path\<close> object, kept as its string\<close>

text \<open>
  What \<^verbatim>\<open>json.load\<close> returns. A number keeps its literal: the code never computes with one.
  An object is the dictionary \<^verbatim>\<open>json.load\<close> has built, so its keys are distinct.
\<close>

datatype json =
    JNull
  | JBool bool
  | JNum string
  | JStr string
  | JArr "json list"
  | JObj "(string \<times> json) list"

datatype pyerror = KeyError string | TypeError | AttributeError

text \<open>
  The outcome of one \<^verbatim>\<open>subprocess.run(..., capture_output=True)\<close>: the call raised (the
  binary is missing, cannot be executed, its output does not decode), or it completed with a
  return code and the text of its standard output.
\<close>

datatype proc = Raised | Completed int string

type_synonym path = "string list"  \<comment> \<open>the components of a path relative to the project root\<close>

type_synonym details = "(string \<times> pyval) list"

text \<open>
  Everything a detection run reads. The run is taken to see one unchanging world: the same
  probe gives the same answer each time it is repeated.
  \<^item> \<open>project_path\<close>: \<^verbatim>\<open>str(self.project_path)\<close>, the resolved root;
  \<^item> \<open>tree\<close>: every file and directory below the root, in the order \<^verbatim>\<open>rglob\<close> walks them;
  \<^item> \<open>virtual_env_var\<close>: \<^verbatim>\<open>os.environ.get("VIRTUAL_ENV")\<close>;
  \<^item> \<open>sys_executable\<close>: \<^verbatim>\<open>sys.executable\<close>;
  \<^item> \<open>subprocess_run\<close>: the outcome of running an argument vector;
  \<^item> \<open>package_json_load\<close>: \<^verbatim>\<open>json.load(open(package.json))\<close>, \<open>None\<close> when opening or parsing
    raises;
  \<^item> \<open>repr_str\<close>: Python's \<^verbatim>\<open>repr\<close> on a \<^verbatim>\<open>str\<close>, used when a list is formatted.
\<close>

record world =
  project_path :: string
  tree :: "path list"
  virtual_env_var :: "string option"
  sys_executable :: string
  subprocess_run :: "string list \<Rightarrow> proc"
  package_json_load :: "json option"
  repr_str :: "string \<Rightarrow> string"

section \<open>Paths and globbing\<close>

definition path_name :: "path \<Rightarrow> string" where
  "path_name p = (case rev p of [] \<Rightarrow> [] | n # _ \<Rightarrow> n)"

fun join_with :: "string \<Rightarrow> string list \<Rightarrow> string" where
  "join_with sep [] = []"
| "join_with sep [x] = x"
| "join_with sep (x # y # ys) = x @ sep @ join_with sep (y # ys)"

definition rel_str :: "path \<Rightarrow> string" where
  "rel_str p = join_with ''/'' p"

text \<open>\<^verbatim>\<open>str(self.project_path / rel)\<close>.\<close>

definition abs_str :: "world \<Rightarrow> path \<Rightarrow> string" where
  "abs_str w p =
     (if p = [] then project_path w
      else if project_path w = ''/'' then ''/'' @ rel_str p
      else project_path w @ ''/'' @ rel_str p)"

text \<open>
  \<^verbatim>\<open>(self.project_path / rel).exists()\<close>, on a tree whose entries can all be examined: the test
  answers. (\<^verbatim>\<open>Path.exists\<close> re-raises an \<^verbatim>\<open>OSError\<close> such as a denied permission; such roots
  are outside this model, and nothing below is stated about them.)
\<close>

definition exists_path :: "world \<Rightarrow> path \<Rightarrow> bool" where
  "exists_path w p = (p \<in> set (tree w))"

text \<open>
  Matching one path component against a pattern whose only wildcard is \<^verbatim>\<open>*\<close> (the patterns
  of the code have no \<^verbatim>\<open>?\<close> and no bracket).
\<close>

fun glob_match :: "string \<Rightarrow> string \<Rightarrow> bool" where
  "glob_match [] [] = True"
| "glob_match [] (c # s) = False"
| "glob_match (p # ps) [] = (p = CHR ''*'' \<and> glob_match ps [])"
| "glob_match (p # ps) (c # s) =
     (if p = CHR ''*'' then glob_match ps (c # s) \<or> glob_match (p # ps) s
      else p = c \<and> glob_match ps s)"

text \<open>\<^verbatim>\<open>list(self.project_path.rglob(pattern))\<close>.\<close>

definition rglob :: "world \<Rightarrow> string \<Rightarrow> path list" where
  "rglob w pat = filter (\<lambda>p. glob_match pat (path_name p)) (tree w)"

section \<open>Strings\<close>

text \<open>
  \<^verbatim>\<open>str.strip()\<close> removes the white space of Unicode from both ends; \<open>is_space\<close> holds of the
  UTF-8 encoding of one such code point (U+0009 to U+000D, U+001C to U+0020, U+0085, U+00A0,
  U+1680, U+2000 to U+200A, U+2028, U+2029, U+202F, U+205F, U+3000).
\<close>

definition is_space :: "string \<Rightarrow> bool" where
  "is_space s =
     (case s of
        [a] \<Rightarrow> (9 \<le> (of_char a :: nat) \<and> (of_char a :: nat) \<le> 13)
              \<or> (28 \<le> (of_char a :: nat) \<and> (of_char a :: nat) \<le> 32)
      | [a, b] \<Rightarrow> (of_char a :: nat) = 0xC2 \<and> ((of_char b :: nat) = 0x85 \<or> (of_char b :: nat) = 0xA0)
      | [a, b, c] \<Rightarrow>
          ((of_char a :: nat) = 0xE1 \<and> (of_char b :: nat) = 0x9A \<and> (of_char c :: nat) = 0x80)
        \<or> ((of_char a :: nat) = 0xE2 \<and> (of_char b :: nat) = 0x80
             \<and> ((0x80 \<le> (of_char c :: nat) \<and> (of_char c :: nat) \<le> 0x8A)
                  \<or> (of_char c :: nat) = 0xA8 \<or> (of_char c :: nat) = 0xA9 \<or> (of_char c :: nat) = 0xAF))
        \<or> ((of_char a :: nat) = 0xE2 \<and> (of_char b :: nat) = 0x81 \<and> (of_char c :: nat) = 0x9F)
        \<or> ((of_char a :: nat) = 0xE3 \<and> (of_char b :: nat) = 0x80 \<and> (of_char c :: nat) = 0x80)
      | _ \<Rightarrow> False)"

fun strip_lead :: "(string \<Rightarrow> bool) \<Rightarrow> string \<Rightarrow> string" where
  "strip_lead sp (a # b # c # s) =
     (if sp [a] then strip_lead sp (b # c # s)
      else if sp [a, b] then strip_lead sp (c # s)
      else if sp [a, b, c] then strip_lead sp s
      else a # b # c # s)"
| "strip_lead sp [a, b] =
     (if sp [a] then strip_lead sp [b] else if sp [a, b] then [] else [a, b])"
| "strip_lead sp [a] = (if sp [a] then [] else [a])"
| "strip_lead sp [] = []"

definition strip :: "string \<Rightarrow> string" where
  "strip s = rev (strip_lead (\<lambda>x. is_space (rev x)) (rev (strip_lead is_space s)))"

text \<open>
  \<^verbatim>\<open>str.upper()\<close> and \<^verbatim>\<open>str.title()\<close>, on the ASCII letters: every string the report passes to
  them is one of the fixed ASCII keys of the findings.
\<close>

definition is_lower :: "char \<Rightarrow> bool" where
  "is_lower c = (97 \<le> (of_char c :: nat) \<and> (of_char c :: nat) \<le> 122)"

definition is_upper :: "char \<Rightarrow> bool" where
  "is_upper c = (65 \<le> (of_char c :: nat) \<and> (of_char c :: nat) \<le> 90)"

definition to_upper :: "char \<Rightarrow> char" where
  "to_upper c = (if is_lower c then char_of ((of_char c :: nat) - 32) else c)"

definition to_lower :: "char \<Rightarrow> char" where
  "to_lower c = (if is_upper c then char_of ((of_char c :: nat) + 32) else c)"

definition upper :: "string \<Rightarrow> string" where
  "upper s = map to_upper s"

text \<open>The flag says whether the previous character was a letter.\<close>

fun title_from :: "bool \<Rightarrow> string \<Rightarrow> string" where
  "title_from prev [] = []"
| "title_from prev (c # s) =
     (if is_lower c \<or> is_upper c
      then (if prev then to_lower c else to_upper c) # title_from True s
      else c # title_from False s)"

definition title :: "string \<Rightarrow> string" where
  "title s = title_from False s"

definition replace_char :: "char \<Rightarrow> char \<Rightarrow> string \<Rightarrow> string" where
  "replace_char a b s = map (\<lambda>c. if c = a then b else c) s"

text \<open>Decimal digits of a natural number, and \<^verbatim>\<open>str\<close> of an \<^verbatim>\<open>int\<close>.\<close>

fun digits :: "nat \<Rightarrow> string" where
  "digits n =
     (if n < 10 then [char_of (48 + n)]
      else digits (n div 10) @ [char_of (48 + n mod 10)])"

declare digits.simps [simp del]

definition str_int :: "int \<Rightarrow> string" where
  "str_int i = (if i < 0 then ''-'' @ digits (nat (- i)) else digits (nat i))"

section \<open>Dictionaries and truth values\<close>

text \<open>\<^verbatim>\<open>d[k] = v\<close>: an existing key keeps its place, a new one goes last.\<close>

fun dict_set :: "('k \<times> 'v) list \<Rightarrow> 'k \<Rightarrow> 'v \<Rightarrow> ('k \<times> 'v) list" where
  "dict_set [] k v = [(k, v)]"
| "dict_set ((k', v') # d) k v =
     (if k' = k then (k, v) # d else (k', v') # dict_set d k v)"

text \<open>\<^verbatim>\<open>k in d\<close>.\<close>

definition has_key :: "('k \<times> 'v) list \<Rightarrow> 'k \<Rightarrow> bool" where
  "has_key d k = (k \<in> set (map fst d))"

text \<open>\<^verbatim>\<open>details.get(k)\<close>, \<^verbatim>\<open>None\<close> for a missing key.\<close>

definition dict_get :: "details \<Rightarrow> string \<Rightarrow> pyval" where
  "dict_get d k = (case map_of d k of None \<Rightarrow> PNone | Some v \<Rightarrow> v)"

text \<open>\<^verbatim>\<open>details[k]\<close>, which raises for a missing key.\<close>

definition dict_index :: "details \<Rightarrow> string \<Rightarrow> pyerror + pyval" where
  "dict_index d k = (case map_of d k of None \<Rightarrow> Inl (KeyError k) | Some v \<Rightarrow> Inr v)"

fun truthy :: "pyval \<Rightarrow> bool" where
  "truthy PNone = False"
| "truthy (PBool b) = b"
| "truthy (PInt i) = (i \<noteq> 0)"
| "truthy (PStr s) = (s \<noteq> [])"
| "truthy (PList xs) = (xs \<noteq> [])"
| "truthy (PDict kvs) = (kvs \<noteq> [])"
| "truthy (PPath p) = True"

definition opt_str :: "string option \<Rightarrow> pyval" where
  "opt_str x = (case x of None \<Rightarrow> PNone | Some s \<Rightarrow> PStr s)"

section \<open>Helper methods of the detector\<close>

text \<open>
  The pattern shared by \<^verbatim>\<open>_get_python_version\<close>, \<^verbatim>\<open>_get_node_version\<close>, \<^verbatim>\<open>_get_go_version\<close>,
  \<^verbatim>\<open>_get_rust_version\<close>, \<^verbatim>\<open>_get_git_branch\<close> and \<^verbatim>\<open>_get_git_remote\<close>: run without
  \<^verbatim>\<open>check=True\<close>, return the stripped standard output, and \<^verbatim>\<open>None\<close> on any exception.
\<close>

definition run_stdout :: "world \<Rightarrow> string list \<Rightarrow> string option" where
  "run_stdout w argv =
     (case subprocess_run w argv of
        Raised \<Rightarrow> None
      | Completed rc out \<Rightarrow> Some (strip out))"

definition get_python_version :: "world \<Rightarrow> string option" where
  "get_python_version w = run_stdout w [sys_executable w, ''--version'']"

definition get_node_version :: "world \<Rightarrow> string option" where
  "get_node_version w = run_stdout w [''node'', ''--version'']"

definition get_go_version :: "world \<Rightarrow> string option" where
  "get_go_version w = run_stdout w [''go'', ''version'']"

definition get_rust_version :: "world \<Rightarrow> string option" where
  "get_rust_version w = run_stdout w [''rustc'', ''--version'']"

definition get_git_branch :: "world \<Rightarrow> string option" where
  "get_git_branch w = run_stdout w [''git'', ''branch'', ''--show-current'']"

definition get_git_remote :: "world \<Rightarrow> string option" where
  "get_git_remote w = run_stdout w [''git'', ''remote'', ''get-url'', ''origin'']"

definition has_uncommitted_changes :: "world \<Rightarrow> bool" where
  "has_uncommitted_changes w =
     (case subprocess_run w [''git'', ''status'', ''--porcelain''] of
        Raised \<Rightarrow> False
      | Completed rc out \<Rightarrow> strip out \<noteq> [])"

text \<open>\<^verbatim>\<open>_command_exists\<close> runs with \<^verbatim>\<open>check=True\<close>: a nonzero return code raises too.\<close>

definition command_exists :: "world \<Rightarrow> string \<Rightarrow> bool" where
  "command_exists w command =
     (case subprocess_run w [command, ''--version''] of
        Raised \<Rightarrow> False
      | Completed rc out \<Rightarrow> rc = 0)"

definition has_npm_audit :: "world \<Rightarrow> bool" where
  "has_npm_audit w =
     (case subprocess_run w [''npm'', ''audit'', ''--help''] of
        Raised \<Rightarrow> False
      | Completed rc out \<Rightarrow> sublist ''audit'' out)"

definition detect_python_env :: "world \<Rightarrow> string option" where
  "detect_python_env w =
     (if (case virtual_env_var w of None \<Rightarrow> False | Some v \<Rightarrow> v \<noteq> []) then virtual_env_var w
      else if exists_path w [''venv''] then Some (abs_str w [''venv''])
      else if exists_path w [''.venv''] then Some (abs_str w [''.venv''])
      else None)"

definition find_requirements :: "world \<Rightarrow> string option" where
  "find_requirements w =
     find (\<lambda>req_file. exists_path w [req_file])
       [''requirements.txt'', ''pyproject.toml'', ''setup.py'', ''Pipfile'']"

definition detect_python_package_manager :: "world \<Rightarrow> string" where
  "detect_python_package_manager w =
     (if exists_path w [''Pipfile''] then ''pipenv''
      else if exists_path w [''pyproject.toml''] then ''poetry/pip''
      else if exists_path w [''requirements.txt''] then ''pip''
      else ''unknown'')"

definition detect_node_package_manager :: "world \<Rightarrow> string" where
  "detect_node_package_manager w =
     (if exists_path w [''yarn.lock''] then ''yarn''
      else if exists_path w [''pnpm-lock.yaml''] then ''pnpm''
      else if exists_path w [''package-lock.json''] then ''npm''
      else ''unknown'')"

text \<open>\<^verbatim>\<open>data.get(key, {})\<close>: only a dictionary has \<^verbatim>\<open>get\<close>.\<close>

definition json_get :: "json \<Rightarrow> string \<Rightarrow> pyerror + json" where
  "json_get data key =
     (case data of
        JObj kvs \<Rightarrow> Inr (case map_of kvs key of None \<Rightarrow> JObj [] | Some v \<Rightarrow> v)
      | _ \<Rightarrow> Inl AttributeError)"

text \<open>
  \<^verbatim>\<open>{**a, **b}\<close>: unpacking anything but a mapping raises. The code only asks which keys the
  result has, so the model returns the keys.
\<close>

definition merged_keys :: "json \<Rightarrow> json \<Rightarrow> pyerror + string list" where
  "merged_keys a b =
     (case a of
        JObj xs \<Rightarrow> (case b of JObj ys \<Rightarrow> Inr (map fst xs @ map fst ys) | _ \<Rightarrow> Inl TypeError)
      | _ \<Rightarrow> Inl TypeError)"

text \<open>The body of the \<^verbatim>\<open>try\<close> block of \<^verbatim>\<open>_detect_js_framework\<close>, after the file is loaded.\<close>

definition framework_of :: "json \<Rightarrow> pyerror + string option" where
  "framework_of data =
     (case json_get data ''dependencies'' of
        Inl e \<Rightarrow> Inl e
      | Inr a \<Rightarrow>
          (case json_get data ''devDependencies'' of
             Inl e \<Rightarrow> Inl e
           | Inr b \<Rightarrow>
               (case merged_keys a b of
                  Inl e \<Rightarrow> Inl e
                | Inr deps \<Rightarrow>
                    Inr (if ''react'' \<in> set deps then Some ''react''
                         else if ''vue'' \<in> set deps then Some ''vue''
                         else if ''@angular/core'' \<in> set deps then Some ''angular''
                         else if ''svelte'' \<in> set deps then Some ''svelte''
                         else None))))"

text \<open>Every exception of the \<^verbatim>\<open>try\<close> block is swallowed, and the method then returns \<^verbatim>\<open>None\<close>.\<close>

definition detect_js_framework :: "world \<Rightarrow> string option" where
  "detect_js_framework w =
     (if \<not> exists_path w [''package.json''] then None
      else case package_json_load w of
             None \<Rightarrow> None
           | Some data \<Rightarrow> (case framework_of data of Inl e \<Rightarrow> None | Inr r \<Rightarrow> r))"

section \<open>The detectors\<close>

definition python_entry :: "world \<Rightarrow> (string \<times> details) list" where
  "python_entry w =
     (let python_files = rglob w ''*.py'' in
      if python_files \<noteq> [] then
        [(''python'',
          [(''files_count'', PInt (int (length python_files))),
           (''current_version'', opt_str (get_python_version w)),
           (''virtual_env'', opt_str (detect_python_env w)),
           (''requirements'', opt_str (find_requirements w)),
           (''package_manager'', PStr (detect_python_package_manager w))])]
      else [])"

definition nodejs_entry :: "world \<Rightarrow> (string \<times> details) list" where
  "nodejs_entry w =
     (if exists_path w [''package.json''] \<or> rglob w ''*.ts'' \<noteq> [] \<or> rglob w ''*.js'' \<noteq> [] then
        [(''nodejs'',
          [(''files_count'', PInt (int (length (rglob w ''*.ts'' @ rglob w ''*.js'')))),
           (''current_version'', opt_str (get_node_version w)),
           (''package_json'', PBool (exists_path w [''package.json''])),
           (''package_manager'', PStr (detect_node_package_manager w)),
           (''framework'', opt_str (detect_js_framework w))])]
      else [])"

definition go_entry :: "world \<Rightarrow> (string \<times> details) list" where
  "go_entry w =
     (let go_files = rglob w ''*.go'' in
      if go_files \<noteq> [] \<or> exists_path w [''go.mod''] then
        [(''go'',
          [(''files_count'', PInt (int (length go_files))),
           (''current_version'', opt_str (get_go_version w)),
           (''go_mod'', PBool (exists_path w [''go.mod'']))])]
      else [])"

definition rust_entry :: "world \<Rightarrow> (string \<times> details) list" where
  "rust_entry w =
     (if exists_path w [''Cargo.toml''] \<or> rglob w ''*.rs'' \<noteq> [] then
        [(''rust'',
          [(''files_count'', PInt (int (length (rglob w ''*.rs'')))),
           (''current_version'', opt_str (get_rust_version w)),
           (''cargo_toml'', PBool (exists_path w [''Cargo.toml'']))])]
      else [])"

text \<open>\<^verbatim>\<open>detect_languages\<close>: the four blocks fill the dictionary in this order.\<close>

definition detect_languages :: "world \<Rightarrow> (string \<times> details) list" where
  "detect_languages w = python_entry w @ nodejs_entry w @ go_entry w @ rust_entry w"

definition docker_files :: "world \<Rightarrow> path list" where
  "docker_files w =
     concat (map (rglob w) [''Dockerfile*'', ''docker-compose*.yml'', ''docker-compose*.yaml''])"

definition docker_entry :: "world \<Rightarrow> (string \<times> details) list" where
  "docker_entry w =
     (if docker_files w \<noteq> [] then
        [(''docker'',
          [(''files'', PList (map (\<lambda>f. PStr (rel_str f)) (docker_files w))),
           (''compose_files'',
              PList (map (\<lambda>f. PPath (abs_str w f))
                (filter (\<lambda>f. sublist ''compose'' (path_name f)) (docker_files w)))),
           (''dockerfiles'',
              PList (map (\<lambda>f. PPath (abs_str w f))
                (filter (\<lambda>f. prefix ''Dockerfile'' (path_name f)) (docker_files w))))])]
      else [])"

definition git_entry :: "world \<Rightarrow> (string \<times> details) list" where
  "git_entry w =
     (if exists_path w [''.git''] then
        [(''git'',
          [(''current_branch'', opt_str (get_git_branch w)),
           (''remote_url'', opt_str (get_git_remote w)),
           (''uncommitted_changes'', PBool (has_uncommitted_changes w))])]
      else [])"

definition ci_patterns :: "path list" where
  "ci_patterns =
     [[''.github'', ''workflows''], [''.gitlab-ci.yml''], [''Jenkinsfile''], [''.travis.yml'']]"

definition ci_entry :: "world \<Rightarrow> (string \<times> details) list" where
  "ci_entry w =
     (let ci_files = filter (exists_path w) ci_patterns in
      if ci_files \<noteq> [] then
        [(''ci_cd'', [(''detected'', PList (map (\<lambda>p. PStr (rel_str p)) ci_files))])]
      else [])"

definition detect_infrastructure :: "world \<Rightarrow> (string \<times> details) list" where
  "detect_infrastructure w = docker_entry w @ git_entry w @ ci_entry w"

section \<open>Suggestions\<close>

text \<open>The body of the loop of \<^verbatim>\<open>suggest_environment_isolation\<close> for one language.\<close>

definition lang_suggestions :: "string \<Rightarrow> details \<Rightarrow> pyerror + string list" where
  "lang_suggestions lang d =
     (if lang = ''python'' then
        (case dict_index d ''virtual_env'' of
           Inl e \<Rightarrow> Inl e
         | Inr venv \<Rightarrow>
             Inr ((if \<not> truthy venv
                   then [''Create Python virtual environment (venv/virtualenv)''] else [])
                @ (if \<not> truthy (dict_get d ''requirements'')
                   then [''Create requirements.txt or pyproject.toml''] else [])
                @ [''Consider pyenv for Python version management'']))
      else if lang = ''nodejs'' then
        Inr ((if \<not> truthy (dict_get d ''package_json'') then [''Initialize package.json''] else [])
           @ [''Consider nvm for Node.js version management'']
           @ (if dict_get d ''framework'' \<in> set [PStr ''react'', PStr ''vue'', PStr ''angular'']
              then [''Use framework-specific dev containers''] else []))
      else if lang = ''go'' then
        Inr ((if \<not> truthy (dict_get d ''go_mod'') then [''Initialize go.mod''] else [])
           @ [''Consider Go workspace for multi-module projects''])
      else if lang = ''rust'' then
        Inr (if \<not> truthy (dict_get d ''cargo_toml'') then [''Initialize Cargo.toml''] else [])
      else Inr [])"

fun suggest_loop ::
  "(string \<times> details) list \<Rightarrow> (string \<times> string list) list
     \<Rightarrow> pyerror + (string \<times> string list) list" where
  "suggest_loop [] suggestions = Inr suggestions"
| "suggest_loop ((lang, d) # rest) suggestions =
     (case lang_suggestions lang d of
        Inl e \<Rightarrow> Inl e
      | Inr lang_sugg \<Rightarrow>
          suggest_loop rest
            (if lang_sugg \<noteq> [] then dict_set suggestions lang lang_sugg else suggestions))"

definition docker_suggestion :: string where
  "docker_suggestion = ''Consider Docker for consistent development environment''"

definition suggest_environment_isolation :: "world \<Rightarrow> pyerror + (string \<times> string list) list" where
  "suggest_environment_isolation w =
     (let languages = detect_languages w in
      case suggest_loop languages [] of
        Inl e \<Rightarrow> Inl e
      | Inr suggestions \<Rightarrow>
          (let infra = detect_infrastructure w in
           if \<not> has_key infra ''docker'' \<and> length languages > 1 then
             Inr (dict_set suggestions ''general''
                    ((case map_of suggestions ''general'' of None \<Rightarrow> [] | Some l \<Rightarrow> l)
                       @ [docker_suggestion]))
           else Inr suggestions))"

section \<open>Security tools\<close>

definition check_security_tools :: "world \<Rightarrow> (string \<times> bool) list" where
  "check_security_tools w =
     [(''bandit'', command_exists w ''bandit''),
      (''safety'', command_exists w ''safety''),
      (''npm_audit'', command_exists w ''npm'' \<and> has_npm_audit w),
      (''snyk'', command_exists w ''snyk''),
      (''semgrep'', command_exists w ''semgrep''),
      (''gosec'', command_exists w ''gosec'')]"

section \<open>The report\<close>

text \<open>
  \<^verbatim>\<open>json.dumps\<close> with the default encoder: \<open>None\<close> stands for the \<^verbatim>\<open>TypeError\<close> it raises on an
  object that is not serializable, here a \<^verbatim>\<open>Path\<close>. The text it returns is identified
  with the document that text parses back to.
\<close>

fun to_json :: "pyval \<Rightarrow> json option" where
  "to_json PNone = Some JNull"
| "to_json (PBool b) = Some (JBool b)"
| "to_json (PInt i) = Some (JNum (str_int i))"
| "to_json (PStr s) = Some (JStr s)"
| "to_json (PList xs) = map_option JArr (those (map to_json xs))"
| "to_json (PDict kvs) =
     map_option JObj (those (map (\<lambda>kv. map_option (Pair (fst kv)) (to_json (snd kv))) kvs))"
| "to_json (PPath p) = None"

definition json_dumps :: "pyval \<Rightarrow> pyerror + json" where
  "json_dumps v = (case to_json v of None \<Rightarrow> Inl TypeError | Some j \<Rightarrow> Inr j)"

text \<open>\<^verbatim>\<open>repr\<close> and \<^verbatim>\<open>str\<close> of a value, as an f-string formats it.\<close>

fun py_repr :: "(string \<Rightarrow> string) \<Rightarrow> pyval \<Rightarrow> string" where
  "py_repr r PNone = ''None''"
| "py_repr r (PBool b) = (if b then ''True'' else ''False'')"
| "py_repr r (PInt i) = str_int i"
| "py_repr r (PStr s) = r s"
| "py_repr r (PList xs) = ''['' @ join_with '', '' (map (py_repr r) xs) @ '']''"
| "py_repr r (PDict kvs) =
     ''{'' @ join_with '', '' (map (\<lambda>kv. r (fst kv) @ '': '' @ py_repr r (snd kv)) kvs) @ ''}''"
| "py_repr r (PPath p) = ''PosixPath('' @ r p @ '')''"

definition py_str :: "(string \<Rightarrow> string) \<Rightarrow> pyval \<Rightarrow> string" where
  "py_str r v = (case v of PStr s \<Rightarrow> s | PPath p \<Rightarrow> p | _ \<Rightarrow> py_repr r v)"

text \<open>A loop that appends lines and stops at the first exception.\<close>

fun collect :: "('a \<Rightarrow> pyerror + string list) \<Rightarrow> 'a list \<Rightarrow> pyerror + string list" where
  "collect f [] = Inr []"
| "collect f (x # xs) =
     (case f x of
        Inl e \<Rightarrow> Inl e
      | Inr ls \<Rightarrow> (case collect f xs of Inl e \<Rightarrow> Inl e | Inr rest \<Rightarrow> Inr (ls @ rest)))"

definition key_label :: "string \<Rightarrow> string" where
  "key_label key = title (replace_char (CHR ''_'') (CHR '' '') key)"

definition language_lines :: "(string \<Rightarrow> string) \<Rightarrow> string \<times> details \<Rightarrow> pyerror + string list" where
  "language_lines r entry =
     (case dict_index (snd entry) ''files_count'' of
        Inl e \<Rightarrow> Inl e
      | Inr files_count \<Rightarrow>
          Inr ([''  '' @ upper (fst entry) @ '':'',
                ''    Files: '' @ py_str r files_count]
             @ (case map_of (snd entry) ''current_version'' of
                  None \<Rightarrow> []
                | Some v \<Rightarrow> [''    Version: '' @ py_str r v])
             @ concat (map (\<lambda>kv.
                 if fst kv \<notin> set [''files_count'', ''current_version'']
                 then [''    '' @ key_label (fst kv) @ '': '' @ py_str r (snd kv)] else [])
                 (snd entry))))"

definition component_lines :: "(string \<Rightarrow> string) \<Rightarrow> string \<times> details \<Rightarrow> string list" where
  "component_lines r entry =
     (''  '' @ upper (fst entry) @ '':'')
       # map (\<lambda>kv. ''    '' @ key_label (fst kv) @ '': '' @ py_str r (snd kv)) (snd entry)"

definition bullet :: string where
  "bullet = [CHR 0xE2, CHR 0x80, CHR 0xA2]"

definition category_lines :: "string \<times> string list \<Rightarrow> string list" where
  "category_lines entry =
     (''  '' @ upper (fst entry) @ '':'')
       # map (\<lambda>item. ''    '' @ bullet @ '' '' @ item) (snd entry)"

definition check_mark :: string where
  "check_mark = [CHR 0xE2, CHR 0x9C, CHR 0x85]"

definition cross_mark :: string where
  "cross_mark = [CHR 0xE2, CHR 0x9D, CHR 0x8C]"

definition tool_line :: "string \<times> bool \<Rightarrow> string" where
  "tool_line entry =
     ''  '' @ (if snd entry then check_mark else cross_mark) @ '' '' @ fst entry"

definition report_title :: string where
  "report_title = [CHR 0xF0, CHR 0x9F, CHR 0x94, CHR 0x8D] @ '' ENVIRONMENT DETECTION REPORT''"

definition languages_header :: string where
  "languages_header =
     [CHR 0x0A, CHR 0xF0, CHR 0x9F, CHR 0x93, CHR 0x9A] @ '' DETECTED LANGUAGES:''"

definition infrastructure_header :: string where
  "infrastructure_header =
     [CHR 0x0A, CHR 0xF0, CHR 0x9F, CHR 0x8F, CHR 0x97, CHR 0xEF, CHR 0xB8, CHR 0x8F]
       @ ''  INFRASTRUCTURE:''"

definition suggestions_header :: string where
  "suggestions_header =
     [CHR 0x0A, CHR 0xF0, CHR 0x9F, CHR 0x92, CHR 0xA1] @ '' ENVIRONMENT ISOLATION SUGGESTIONS:''"

definition security_header :: string where
  "security_header =
     [CHR 0x0A, CHR 0xF0, CHR 0x9F, CHR 0x9B, CHR 0xA1, CHR 0xEF, CHR 0xB8, CHR 0x8F]
       @ ''  SECURITY TOOLS AVAILABILITY:''"

text \<open>The list \<^verbatim>\<open>report\<close> of the console branch, before it is joined.\<close>

definition console_lines ::
  "(string \<Rightarrow> string) \<Rightarrow> (string \<times> details) list \<Rightarrow> (string \<times> details) list
     \<Rightarrow> (string \<times> string list) list \<Rightarrow> (string \<times> bool) list \<Rightarrow> pyerror + string list" where
  "console_lines r languages infra suggestions security_tools =
     (case collect (language_lines r) languages of
        Inl e \<Rightarrow> Inl e
      | Inr lang_lines \<Rightarrow>
          Inr ([report_title, replicate 50 (CHR ''=''), languages_header]
             @ lang_lines
             @ (if infra \<noteq> []
                then infrastructure_header # concat (map (component_lines r) infra) else [])
             @ (if suggestions \<noteq> []
                then suggestions_header # concat (map category_lines suggestions) else [])
             @ [security_header]
             @ map tool_line security_tools))"

text \<open>
  What \<^verbatim>\<open>generate_report\<close> returns: the text of the console report, or in the
  \<^verbatim>\<open>"json"\<close> format the document its text parses back to.
\<close>

datatype report = Text string | Document json

definition dict_of :: "(string \<times> details) list \<Rightarrow> pyval" where
  "dict_of d = PDict (map (\<lambda>kv. (fst kv, PDict (snd kv))) d)"

definition generate_report :: "world \<Rightarrow> string \<Rightarrow> pyerror + report" where
  "generate_report w format_type =
     (let languages = detect_languages w;
          infra = detect_infrastructure w
      in case suggest_environment_isolation w of
           Inl e \<Rightarrow> Inl e
         | Inr suggestions \<Rightarrow>
             (let security_tools = check_security_tools w in
              if format_type = ''json'' then
                (case json_dumps (PDict
                        [(''languages'', dict_of languages),
                         (''infrastructure'', dict_of infra),
                         (''suggestions'',
                            PDict (map (\<lambda>kv. (fst kv, PList (map PStr (snd kv)))) suggestions)),
                         (''security_tools'',
                            PDict (map (\<lambda>kv. (fst kv, PBool (snd kv))) security_tools))]) of
                   Inl e \<Rightarrow> Inl e
                 | Inr doc \<Rightarrow> Inr (Document doc))
              else
                (case console_lines (repr_str w) languages infra suggestions security_tools of
                   Inl e \<Rightarrow> Inl e
                 | Inr report \<Rightarrow> Inr (Text (join_with [CHR 0x0A] report)))))"

section \<open>Notions of the specification\<close>

text \<open>One field of the finding of one language, as \<^verbatim>\<open>detect_languages()[lang][key]\<close> reads it.\<close>

definition finding_field :: "world \<Rightarrow> string \<Rightarrow> string \<Rightarrow> pyval option" where
  "finding_field w lang key =
     (case map_of (detect_languages w) lang of None \<Rightarrow> None | Some d \<Rightarrow> map_of d key)"

text \<open>
  The specification's rule for a package manager: go through a fixed, ordered list of file
  names and return the manager of the first one that exists, \<^verbatim>\<open>"unknown"\<close> if none does.
\<close>

fun first_match :: "world \<Rightarrow> (string \<times> string) list \<Rightarrow> string" where
  "first_match w [] = ''unknown''"
| "first_match w ((file, manager) # rest) =
     (if exists_path w [file] then manager else first_match w rest)"

definition node_lockfiles :: "(string \<times> string) list" where
  "node_lockfiles =
     [(''yarn.lock'', ''yarn''), (''pnpm-lock.yaml'', ''pnpm''), (''package-lock.json'', ''npm'')]"

text \<open>
  The specification's rule for the framework: a fixed priority order of dependency names, the
  first one present decides.
\<close>

definition framework_priority :: "(string \<times> string) list" where
  "framework_priority =
     [(''react'', ''react''), (''vue'', ''vue''), (''@angular/core'', ''angular''),
      (''svelte'', ''svelte'')]"

fun first_framework :: "(string \<times> string) list \<Rightarrow> string list \<Rightarrow> string option" where
  "first_framework [] deps = None"
| "first_framework ((dep, framework) # rest) deps =
     (if dep \<in> set deps then Some framework else first_framework rest deps)"

text \<open>
  A section (\<^verbatim>\<open>dependencies\<close>, \<^verbatim>\<open>devDependencies\<close>) of a loaded \<^verbatim>\<open>package.json\<close> object: empty
  when the key is missing, its entries when it is an object, and \<open>None\<close> when it is anything
  else.
\<close>

definition section_of :: "(string \<times> json) list \<Rightarrow> string \<Rightarrow> (string \<times> json) list option" where
  "section_of kvs key =
     (case map_of kvs key of
        None \<Rightarrow> Some []
      | Some (JObj d) \<Rightarrow> Some d
      | Some _ \<Rightarrow> None)"



section \<open>Sample project roots\<close>

text \<open>An empty project on a machine where no command can be run.\<close>

definition bare :: world where
  "bare =
     \<lparr> project_path = ''/srv/app'', tree = [], virtual_env_var = None,
       sys_executable = ''/usr/bin/python3'', subprocess_run = (\<lambda>argv. Raised),
       package_json_load = None, repr_str = (\<lambda>s. [CHR 0x27] @ s @ [CHR 0x27]) \<rparr>"

definition requirements_only :: world where
  "requirements_only = bare\<lparr>tree := [[''requirements.txt'']]\<rparr>"

definition dockerfile_only :: world where
  "dockerfile_only = bare\<lparr>tree := [[''Dockerfile'']]\<rparr>"

definition go_mod_only :: world where
  "go_mod_only = bare\<lparr>tree := [[''go.mod'']]\<rparr>"

definition yarn_project :: world where
  "yarn_project =
     bare\<lparr>tree := [[''package.json''], [''yarn.lock''], [''src''], [''src'', ''index.js'']],
          package_json_load :=
            Some (JObj [(''name'', JStr ''demo''),
                        (''dependencies'', JObj [(''vue'', JStr ''3.4.0''), (''react'', JStr ''18.2.0'')])])\<rparr>"

text \<open>\<^verbatim>\<open>{"dependencies": {"react": "18.2.0"}, "devDependencies": []}\<close>\<close>

definition react_with_list :: world where
  "react_with_list =
     bare\<lparr>tree := [[''package.json'']],
          package_json_load :=
            Some (JObj [(''dependencies'', JObj [(''react'', JStr ''18.2.0'')]),
                        (''devDependencies'', JArr [])])\<rparr>"

text \<open>A Python project with a \<^verbatim>\<open>venv\<close> directory, run with \<^verbatim>\<open>VIRTUAL_ENV\<close> set to the empty string.\<close>

definition empty_virtual_env :: world where
  "empty_virtual_env =
     bare\<lparr>tree := [[''main.py''], [''venv'']], virtual_env_var := Some []\<rparr>"

definition activated :: world where
  "activated = bare\<lparr>tree := [[''main.py'']], virtual_env_var := Some ''/opt/venvs/app''\<rparr>"

text \<open>Python and Go sources, no container file; \<^verbatim>\<open>node\<close> is not installed.\<close>

definition polyglot :: world where
  "polyglot =
     bare\<lparr>tree := [[''main.py''], [''cmd''], [''cmd'', ''tool.go''], [''package.json'']],
          subprocess_run :=
            (\<lambda>argv. if argv = [''go'', ''version''] then Completed 2 (''go: broken '' @ [CHR 0x0A])
                     else if argv = [''bandit'', ''--version''] then Completed 1 []
                     else Raised)\<rparr>"


section \<open>Findings of \<^verbatim>\<open>detect_languages\<close>\<close>

lemma has_key_iff: "has_key d k \<longleftrightarrow> map_of d k \<noteq> None"
  by (simp add: has_key_def map_of_eq_None_iff)

lemma map_of_python:
  "map_of (detect_languages w) ''python'' =
     (if rglob w ''*.py'' \<noteq> [] then
        Some [(''files_count'', PInt (int (length (rglob w ''*.py'')))),
              (''current_version'', opt_str (get_python_version w)),
              (''virtual_env'', opt_str (detect_python_env w)),
              (''requirements'', opt_str (find_requirements w)),
              (''package_manager'', PStr (detect_python_package_manager w))]
      else None)"
  by (simp add: detect_languages_def python_entry_def nodejs_entry_def go_entry_def
      rust_entry_def Let_def)

lemma map_of_nodejs:
  "map_of (detect_languages w) ''nodejs'' =
     (if exists_path w [''package.json''] \<or> rglob w ''*.ts'' \<noteq> [] \<or> rglob w ''*.js'' \<noteq> [] then
        Some [(''files_count'', PInt (int (length (rglob w ''*.ts'' @ rglob w ''*.js'')))),
              (''current_version'', opt_str (get_node_version w)),
              (''package_json'', PBool (exists_path w [''package.json''])),
              (''package_manager'', PStr (detect_node_package_manager w)),
              (''framework'', opt_str (detect_js_framework w))]
      else None)"
  by (simp add: detect_languages_def python_entry_def nodejs_entry_def go_entry_def
      rust_entry_def Let_def)

lemma map_of_go:
  "map_of (detect_languages w) ''go'' =
     (if rglob w ''*.go'' \<noteq> [] \<or> exists_path w [''go.mod''] then
        Some [(''files_count'', PInt (int (length (rglob w ''*.go'')))),
              (''current_version'', opt_str (get_go_version w)),
              (''go_mod'', PBool (exists_path w [''go.mod'']))]
      else None)"
  by (simp add: detect_languages_def python_entry_def nodejs_entry_def go_entry_def
      rust_entry_def Let_def)

lemma map_of_rust:
  "map_of (detect_languages w) ''rust'' =
     (if exists_path w [''Cargo.toml''] \<or> rglob w ''*.rs'' \<noteq> [] then
        Some [(''files_count'', PInt (int (length (rglob w ''*.rs'')))),
              (''current_version'', opt_str (get_rust_version w)),
              (''cargo_toml'', PBool (exists_path w [''Cargo.toml'']))]
      else None)"
  by (simp add: detect_languages_def python_entry_def nodejs_entry_def go_entry_def
      rust_entry_def Let_def)

text \<open>A pattern \<^verbatim>\<open>*.ext\<close> matches exactly the names that end in \<^verbatim>\<open>.ext\<close>.\<close>

lemma glob_literal: "CHR ''*'' \<notin> set p \<Longrightarrow> glob_match p s \<longleftrightarrow> s = p"
  by (induction p s rule: glob_match.induct) auto

lemma suffix_Cons_iff: "suffix xs (y # ys) \<longleftrightarrow> xs = y # ys \<or> suffix xs ys"
  by (auto simp: suffix_def Cons_eq_append_conv)

lemma glob_star_suffix:
  "CHR ''*'' \<notin> set lit \<Longrightarrow> glob_match (CHR ''*'' # lit) s \<longleftrightarrow> suffix lit s"
proof (induction s)
  case Nil
  then show ?case by (auto simp: glob_literal)
next
  case (Cons c s)
  then show ?case by (auto simp: glob_literal suffix_Cons_iff)
qed

lemma rglob_extension:
  "CHR ''*'' \<notin> set ext \<Longrightarrow>
     rglob w (CHR ''*'' # ext) \<noteq> [] \<longleftrightarrow> (\<exists>p \<in> set (tree w). suffix ext (path_name p))"
  by (simp add: rglob_def filter_empty_conv glob_star_suffix)

text \<open>
  When each language has an entry. Node.js, Go and Rust are detected by their sources or by
  their manifest at the root; Python by its sources only.
\<close>

lemma language_entries:
  "has_key (detect_languages w) ''python'' \<longleftrightarrow> (\<exists>p \<in> set (tree w). suffix ''.py'' (path_name p))"
  "has_key (detect_languages w) ''nodejs'' \<longleftrightarrow>
     exists_path w [''package.json'']
     \<or> (\<exists>p \<in> set (tree w). suffix ''.ts'' (path_name p) \<or> suffix ''.js'' (path_name p))"
  "has_key (detect_languages w) ''go'' \<longleftrightarrow>
     (\<exists>p \<in> set (tree w). suffix ''.go'' (path_name p)) \<or> exists_path w [''go.mod'']"
  "has_key (detect_languages w) ''rust'' \<longleftrightarrow>
     exists_path w [''Cargo.toml''] \<or> (\<exists>p \<in> set (tree w). suffix ''.rs'' (path_name p))"
  using rglob_extension [of "''.py''" w] rglob_extension [of "''.ts''" w]
    rglob_extension [of "''.js''" w] rglob_extension [of "''.go''" w]
    rglob_extension [of "''.rs''" w]
  by (auto simp: has_key_iff map_of_python map_of_nodejs map_of_go map_of_rust)

text \<open>
  C1. The claim: a language has an entry if and only if its sources exist below the root or
  its manifest exists at the root, so that a root whose only Python signal is
  \<^verbatim>\<open>requirements.txt\<close> still has a python entry. The code tests no manifest for Python: on the
  root that holds \<^verbatim>\<open>requirements.txt\<close> alone the result has no python entry, while the root that
  holds \<^verbatim>\<open>go.mod\<close> alone has its go entry.
\<close>

theorem manifest_only_python_missing:
  "exists_path requirements_only [''requirements.txt'']
   \<and> \<not> has_key (detect_languages requirements_only) ''python''
   \<and> exists_path go_mod_only [''go.mod'']
   \<and> has_key (detect_languages go_mod_only) ''go''"
  by code_simp

text \<open>
  C4, as the claim states it: every finding has a package-manager field. The finding of a
  Go project has none.
\<close>

theorem finding_without_package_manager:
  "has_key (detect_languages go_mod_only) ''go''
   \<and> finding_field go_mod_only ''go'' ''package_manager'' = None"
  by code_simp

text \<open>
  C4, amended. The python and nodejs findings have a \<^verbatim>\<open>package_manager\<close> field, whose value is
  one of the names the detector knows or \<^verbatim>\<open>"unknown"\<close>; the go and rust findings have no such
  field.
\<close>

theorem package_manager_field:
  "(has_key (detect_languages w) ''python'' \<longrightarrow>
      (\<exists>m. finding_field w ''python'' ''package_manager'' = Some (PStr m)
           \<and> m \<in> {''pipenv'', ''poetry/pip'', ''pip'', ''unknown''}))
   \<and> (has_key (detect_languages w) ''nodejs'' \<longrightarrow>
      (\<exists>m. finding_field w ''nodejs'' ''package_manager'' = Some (PStr m)
           \<and> m \<in> {''yarn'', ''pnpm'', ''npm'', ''unknown''}))
   \<and> finding_field w ''go'' ''package_manager'' = None
   \<and> finding_field w ''rust'' ''package_manager'' = None"
  by (simp add: has_key_iff finding_field_def map_of_python map_of_nodejs map_of_go map_of_rust
      detect_python_package_manager_def detect_node_package_manager_def)

theorem package_manager_field_witness:
  "has_key (detect_languages polyglot) ''python''
   \<and> has_key (detect_languages polyglot) ''nodejs''
   \<and> finding_field polyglot ''python'' ''package_manager'' = Some (PStr ''unknown'')
   \<and> finding_field polyglot ''nodejs'' ''package_manager'' = Some (PStr ''unknown'')
   \<and> finding_field polyglot ''go'' ''package_manager'' = None"
proof -
  have k1: "has_key (detect_languages polyglot) ''python''" by code_simp
  have k2: "has_key (detect_languages polyglot) ''nodejs''" by code_simp
  have v1: "finding_field polyglot ''python'' ''package_manager'' = Some (PStr ''unknown'')"
    by code_simp
  have v2: "finding_field polyglot ''nodejs'' ''package_manager'' = Some (PStr ''unknown'')"
    by code_simp
  from k1 k2 v1 v2 package_manager_field [of polyglot] show ?thesis by simp
qed

section \<open>Package manager and virtual environment\<close>

lemma node_first_match: "detect_node_package_manager w = first_match w node_lockfiles"
  by (simp add: detect_node_package_manager_def node_lockfiles_def)

text \<open>
  C5. Where \<^verbatim>\<open>yarn.lock\<close> exists and \<^verbatim>\<open>package-lock.json\<close> and \<^verbatim>\<open>pnpm-lock.yaml\<close> do not, the
  Node.js package manager is \<^verbatim>\<open>"yarn"\<close>. In general the method returns the manager of the first
  existing file of the ordered list \<^verbatim>\<open>yarn.lock\<close>, \<^verbatim>\<open>pnpm-lock.yaml\<close>, \<^verbatim>\<open>package-lock.json\<close>, and
  \<^verbatim>\<open>"unknown"\<close> when none exists; this is the value of the field of the nodejs finding.
\<close>

theorem node_package_manager_first_lockfile:
  "(exists_path w [''yarn.lock''] \<and> \<not> exists_path w [''package-lock.json'']
      \<and> \<not> exists_path w [''pnpm-lock.yaml'']
      \<longrightarrow> detect_node_package_manager w = ''yarn'')
   \<and> detect_node_package_manager w = first_match w node_lockfiles
   \<and> (has_key (detect_languages w) ''nodejs''
      \<longrightarrow> finding_field w ''nodejs'' ''package_manager''
            = Some (PStr (detect_node_package_manager w)))"
  by (simp add: node_first_match has_key_iff finding_field_def map_of_nodejs)
    (simp add: node_lockfiles_def)

theorem node_package_manager_first_lockfile_witness:
  "exists_path yarn_project [''yarn.lock''] \<and> \<not> exists_path yarn_project [''package-lock.json'']
     \<and> \<not> exists_path yarn_project [''pnpm-lock.yaml'']
     \<and> has_key (detect_languages yarn_project) ''nodejs''
     \<and> detect_node_package_manager yarn_project = ''yarn''
     \<and> finding_field yarn_project ''nodejs'' ''package_manager'' = Some (PStr ''yarn'')"
proof -
  have e: "exists_path yarn_project [''yarn.lock'']
     \<and> \<not> exists_path yarn_project [''package-lock.json'']
     \<and> \<not> exists_path yarn_project [''pnpm-lock.yaml'']"
    by code_simp
  have k: "has_key (detect_languages yarn_project) ''nodejs''"
    by code_simp
  from e k node_package_manager_first_lockfile [of yarn_project] show ?thesis
    by simp
qed

text \<open>
  C10, as the claim states it: the detector falls back to the directories only when
  \<^verbatim>\<open>VIRTUAL_ENV\<close> is unset. With the variable set to the empty string the field is the path of
  the \<^verbatim>\<open>venv\<close> directory.
\<close>

theorem empty_virtual_env_falls_back:
  "virtual_env_var empty_virtual_env \<noteq> None
   \<and> finding_field empty_virtual_env ''python'' ''virtual_env'' = Some (PStr ''/srv/app/venv'')"
  by code_simp

text \<open>
  C10, amended. If \<^verbatim>\<open>VIRTUAL_ENV\<close> is set to a non-empty value the method returns it, whatever
  directories exist. If it is unset or empty the method returns the path of \<^verbatim>\<open>venv\<close> if that
  exists, else the path of \<^verbatim>\<open>.venv\<close> if that exists, else nothing. The \<^verbatim>\<open>virtual_env\<close> field of
  the python finding is that result, and two runs on the same tree with different values of
  the variable give different fields.
\<close>

theorem python_env_order:
  "(\<forall>v. virtual_env_var w = Some v \<and> v \<noteq> [] \<longrightarrow> detect_python_env w = Some v)
   \<and> (virtual_env_var w = None \<or> virtual_env_var w = Some [] \<longrightarrow>
        detect_python_env w =
          (if exists_path w [''venv''] then Some (abs_str w [''venv''])
           else if exists_path w [''.venv''] then Some (abs_str w [''.venv''])
           else None))
   \<and> (has_key (detect_languages w) ''python'' \<longrightarrow>
        finding_field w ''python'' ''virtual_env'' = Some (opt_str (detect_python_env w)))
   \<and> tree activated = tree (activated\<lparr>virtual_env_var := None\<rparr>)
   \<and> finding_field activated ''python'' ''virtual_env''
        \<noteq> finding_field (activated\<lparr>virtual_env_var := None\<rparr>) ''python'' ''virtual_env''"
proof -
  have a: "\<forall>v. virtual_env_var w = Some v \<and> v \<noteq> [] \<longrightarrow> detect_python_env w = Some v"
    by (simp add: detect_python_env_def)
  have b: "virtual_env_var w = None \<or> virtual_env_var w = Some [] \<longrightarrow>
        detect_python_env w =
          (if exists_path w [''venv''] then Some (abs_str w [''venv''])
           else if exists_path w [''.venv''] then Some (abs_str w [''.venv''])
           else None)"
    by (auto simp: detect_python_env_def)
  have c: "has_key (detect_languages w) ''python'' \<longrightarrow>
        finding_field w ''python'' ''virtual_env'' = Some (opt_str (detect_python_env w))"
    by (simp add: has_key_iff finding_field_def map_of_python)
  have d: "tree activated = tree (activated\<lparr>virtual_env_var := None\<rparr>)"
    by simp
  have e: "finding_field activated ''python'' ''virtual_env''
        \<noteq> finding_field (activated\<lparr>virtual_env_var := None\<rparr>) ''python'' ''virtual_env''"
    by code_simp
  from a b c d e show ?thesis by blast
qed

theorem python_env_order_witness:
  "virtual_env_var activated = Some ''/opt/venvs/app''
   \<and> \<not> exists_path activated [''venv''] \<and> \<not> exists_path activated [''.venv'']
   \<and> has_key (detect_languages activated) ''python''
   \<and> finding_field activated ''python'' ''virtual_env'' = Some (PStr ''/opt/venvs/app'')
   \<and> virtual_env_var empty_virtual_env = Some []
   \<and> detect_python_env empty_virtual_env = Some ''/srv/app/venv''"
proof -
  have h1: "virtual_env_var activated = Some ''/opt/venvs/app''"
    by (simp add: activated_def bare_def)
  have h2: "\<not> exists_path activated [''venv'']" by code_simp
  have h3: "\<not> exists_path activated [''.venv'']" by code_simp
  have h4: "has_key (detect_languages activated) ''python''" by code_simp
  have h5: "virtual_env_var empty_virtual_env = Some []"
    by (simp add: empty_virtual_env_def bare_def)
  have h6: "exists_path empty_virtual_env [''venv'']" by code_simp
  have h7: "abs_str empty_virtual_env [''venv''] = ''/srv/app/venv''" by code_simp
  from h1 h4 python_env_order [of activated]
  have a: "finding_field activated ''python'' ''virtual_env'' = Some (PStr ''/opt/venvs/app'')"
    by (simp add: opt_str_def)
  from h5 h6 h7 python_env_order [of empty_virtual_env]
  have b: "detect_python_env empty_virtual_env = Some ''/srv/app/venv''"
    by simp
  from h1 h2 h3 h4 h5 a b show ?thesis by simp
qed

section \<open>Security tools\<close>

text \<open>
  C9. Whatever the project and the machine, \<^verbatim>\<open>check_security_tools\<close> returns a dictionary
  whose keys are the six tool names \<^verbatim>\<open>bandit\<close>, \<^verbatim>\<open>safety\<close>, \<^verbatim>\<open>npm_audit\<close>, \<^verbatim>\<open>snyk\<close>, \<^verbatim>\<open>semgrep\<close>,
  \<^verbatim>\<open>gosec\<close>, each once, and whose values are booleans (by the type of the result).
\<close>

theorem check_security_tools_keys:
  "map fst (check_security_tools w)
     = [''bandit'', ''safety'', ''npm_audit'', ''snyk'', ''semgrep'', ''gosec'']
   \<and> distinct (map fst (check_security_tools w))"
  by (simp add: check_security_tools_def)

section \<open>Suggestions for isolation\<close>

lemma map_of_dict_set:
  "map_of (dict_set d k v) k' = (if k' = k then Some v else map_of d k')"
  by (induction d k v rule: dict_set.induct) auto

text \<open>
  Every finding has a \<^verbatim>\<open>files_count\<close>, and the python finding a \<^verbatim>\<open>virtual_env\<close>: the two keys
  the code indexes without a default.
\<close>

lemma python_entry_details:
  "e \<in> set (python_entry w) \<Longrightarrow>
     fst e = ''python'' \<and> map_of (snd e) ''files_count'' \<noteq> None
     \<and> map_of (snd e) ''virtual_env'' \<noteq> None"
  by (auto simp: python_entry_def Let_def split: if_splits)

lemma nodejs_entry_details:
  "e \<in> set (nodejs_entry w) \<Longrightarrow> fst e = ''nodejs'' \<and> map_of (snd e) ''files_count'' \<noteq> None"
  by (auto simp: nodejs_entry_def Let_def split: if_splits)

lemma go_entry_details:
  "e \<in> set (go_entry w) \<Longrightarrow> fst e = ''go'' \<and> map_of (snd e) ''files_count'' \<noteq> None"
  by (auto simp: go_entry_def Let_def split: if_splits)

lemma rust_entry_details:
  "e \<in> set (rust_entry w) \<Longrightarrow> fst e = ''rust'' \<and> map_of (snd e) ''files_count'' \<noteq> None"
  by (auto simp: rust_entry_def Let_def split: if_splits)

lemma language_details:
  assumes "e \<in> set (detect_languages w)"
  shows "fst e \<in> {''python'', ''nodejs'', ''go'', ''rust''}"
    and "map_of (snd e) ''files_count'' \<noteq> None"
    and "fst e = ''python'' \<Longrightarrow> map_of (snd e) ''virtual_env'' \<noteq> None"
proof -
  from assms consider "e \<in> set (python_entry w)" | "e \<in> set (nodejs_entry w)"
    | "e \<in> set (go_entry w)" | "e \<in> set (rust_entry w)"
    by (auto simp: detect_languages_def)
  note cases = this
  show "fst e \<in> {''python'', ''nodejs'', ''go'', ''rust''}"
    using cases python_entry_details nodejs_entry_details go_entry_details rust_entry_details
    by (metis insertCI)
  show "map_of (snd e) ''files_count'' \<noteq> None"
    using cases python_entry_details nodejs_entry_details go_entry_details rust_entry_details
    by metis
  show "map_of (snd e) ''virtual_env'' \<noteq> None" if "fst e = ''python''"
  proof -
    have "e \<in> set (python_entry w)"
      using cases
    proof cases
      case 1 then show ?thesis .
    next
      case 2 with nodejs_entry_details [of e w] that show ?thesis by simp
    next
      case 3 with go_entry_details [of e w] that show ?thesis by simp
    next
      case 4 with rust_entry_details [of e w] that show ?thesis by simp
    qed
    with python_entry_details show ?thesis by blast
  qed
qed


text \<open>The loop of \<^verbatim>\<open>suggest_environment_isolation\<close> never raises and adds language keys only.\<close>

lemma lang_suggestions_ok:
  "(lang = ''python'' \<longrightarrow> map_of d ''virtual_env'' \<noteq> None) \<Longrightarrow> \<exists>ls. lang_suggestions lang d = Inr ls"
  by (cases "lang = ''python''") (auto simp: lang_suggestions_def dict_index_def)

lemma suggest_loop_ok:
  "(\<forall>e \<in> set ls. fst e = ''python'' \<longrightarrow> map_of (snd e) ''virtual_env'' \<noteq> None) \<Longrightarrow>
     \<exists>s. suggest_loop ls acc = Inr s"
proof (induction ls arbitrary: acc)
  case Nil
  then show ?case by simp
next
  case (Cons e ls)
  obtain lang d where e: "e = (lang, d)" by (cases e)
  with Cons.prems have "lang = ''python'' \<longrightarrow> map_of d ''virtual_env'' \<noteq> None" by simp
  then obtain x where x: "lang_suggestions lang d = Inr x"
    using lang_suggestions_ok by blast
  from Cons.prems have "\<forall>e \<in> set ls. fst e = ''python'' \<longrightarrow> map_of (snd e) ''virtual_env'' \<noteq> None"
    by simp
  from Cons.IH [OF this] show ?case by (simp add: e x)
qed

lemma suggest_loop_keys:
  "suggest_loop ls acc = Inr s \<Longrightarrow> map_of acc k = None \<Longrightarrow> k \<notin> fst ` set ls \<Longrightarrow>
     map_of s k = None"
proof (induction ls arbitrary: acc)
  case Nil
  then show ?case by simp
next
  case (Cons e ls)
  obtain lang d where e: "e = (lang, d)" by (cases e)
  from Cons.prems(1) obtain x where x: "lang_suggestions lang d = Inr x"
    and r: "suggest_loop ls (if x \<noteq> [] then dict_set acc lang x else acc) = Inr s"
    unfolding e by (cases "lang_suggestions lang d") simp_all
  from Cons.prems(3) have k: "k \<noteq> lang" "k \<notin> fst ` set ls" by (auto simp: e)
  with Cons.prems(2) have "map_of (if x \<noteq> [] then dict_set acc lang x else acc) k = None"
    by (simp add: map_of_dict_set)
  from Cons.IH [OF r this k(2)] show ?case .
qed

lemma suggest_loop_languages:
  "\<exists>s. suggest_loop (detect_languages w) [] = Inr s \<and> map_of s ''general'' = None"
proof -
  have "\<forall>e \<in> set (detect_languages w). fst e = ''python'' \<longrightarrow> map_of (snd e) ''virtual_env'' \<noteq> None"
    using language_details(3) by blast
  then obtain s where s: "suggest_loop (detect_languages w) [] = Inr s"
    using suggest_loop_ok by blast
  have "''general'' \<notin> fst ` set (detect_languages w)"
  proof
    assume "''general'' \<in> fst ` set (detect_languages w)"
    then obtain e where "e \<in> set (detect_languages w)" "fst e = ''general''" by auto
    with language_details(1) [of e w] show False by simp
  qed
  with s have "map_of s ''general'' = None"
    using suggest_loop_keys [of "detect_languages w" "[]" s "''general''"] by simp
  with s show ?thesis by blast
qed


lemma docker_key: "has_key (detect_infrastructure w) ''docker'' \<longleftrightarrow> docker_files w \<noteq> []"
  by (simp add: has_key_iff detect_infrastructure_def docker_entry_def git_entry_def ci_entry_def
      Let_def)

lemma suggest_cases:
  "\<exists>s. suggest_loop (detect_languages w) [] = Inr s \<and> map_of s ''general'' = None
     \<and> suggest_environment_isolation w =
         Inr (if \<not> has_key (detect_infrastructure w) ''docker'' \<and> 1 < length (detect_languages w)
              then dict_set s ''general'' [docker_suggestion] else s)"
proof -
  from suggest_loop_languages obtain s where
    s: "suggest_loop (detect_languages w) [] = Inr s" "map_of s ''general'' = None"
    by blast
  then have "suggest_environment_isolation w =
         Inr (if \<not> has_key (detect_infrastructure w) ''docker'' \<and> 1 < length (detect_languages w)
              then dict_set s ''general'' [docker_suggestion] else s)"
    by (simp add: suggest_environment_isolation_def Let_def)
  with s show ?thesis by blast
qed

text \<open>
  C8. When more than one language is detected and the infrastructure has no docker entry, the
  suggestions have a \<^verbatim>\<open>general\<close> entry, which holds the suggestion to use Docker. When at most
  one language is detected, or a docker entry is present, the suggestions have no \<^verbatim>\<open>general\<close>
  entry. The docker entry is present exactly when one of the three container patterns
  matches a file.
\<close>

theorem general_docker_suggestion:
  "(1 < length (detect_languages w) \<and> \<not> has_key (detect_infrastructure w) ''docker'' \<longrightarrow>
      (\<exists>s. suggest_environment_isolation w = Inr s
           \<and> map_of s ''general'' = Some [docker_suggestion]))
   \<and> (length (detect_languages w) \<le> 1 \<or> has_key (detect_infrastructure w) ''docker'' \<longrightarrow>
      (\<exists>s. suggest_environment_isolation w = Inr s \<and> map_of s ''general'' = None))
   \<and> (has_key (detect_infrastructure w) ''docker'' \<longleftrightarrow> docker_files w \<noteq> [])"
proof -
  from suggest_cases [of w] obtain s where
    s: "map_of s ''general'' = None"
      "suggest_environment_isolation w =
         Inr (if \<not> has_key (detect_infrastructure w) ''docker'' \<and> 1 < length (detect_languages w)
              then dict_set s ''general'' [docker_suggestion] else s)"
    by blast
  have a: "1 < length (detect_languages w) \<and> \<not> has_key (detect_infrastructure w) ''docker'' \<longrightarrow>
      (\<exists>s. suggest_environment_isolation w = Inr s
           \<and> map_of s ''general'' = Some [docker_suggestion])"
    using s by (simp add: map_of_dict_set)
  have b: "length (detect_languages w) \<le> 1 \<or> has_key (detect_infrastructure w) ''docker'' \<longrightarrow>
      (\<exists>s. suggest_environment_isolation w = Inr s \<and> map_of s ''general'' = None)"
    using s by auto
  from a b docker_key [of w] show ?thesis by blast
qed

theorem general_docker_suggestion_witness:
  "1 < length (detect_languages polyglot) \<and> \<not> has_key (detect_infrastructure polyglot) ''docker''
   \<and> (\<exists>s. suggest_environment_isolation polyglot = Inr s
          \<and> map_of s ''general'' = Some [docker_suggestion])
   \<and> has_key (detect_infrastructure dockerfile_only) ''docker''
   \<and> (\<exists>s. suggest_environment_isolation dockerfile_only = Inr s \<and> map_of s ''general'' = None)"
proof -
  have h1: "1 < length (detect_languages polyglot)" by code_simp
  have h2: "\<not> has_key (detect_infrastructure polyglot) ''docker''" by code_simp
  have h3: "has_key (detect_infrastructure dockerfile_only) ''docker''" by code_simp
  from h1 h2 h3 general_docker_suggestion [of polyglot] general_docker_suggestion [of dockerfile_only]
  show ?thesis by blast
qed

section \<open>The console report\<close>

lemma set_join_with: "set (join_with sep xs) \<subseteq> set sep \<union> \<Union> (set ` set xs)"
  by (induction sep xs rule: join_with.induct) auto

text \<open>
  The console branch of \<^verbatim>\<open>generate_report\<close> finds the key \<^verbatim>\<open>files_count\<close> it indexes in every
  finding, so that its \<^verbatim>\<open>KeyError\<close> cannot occur.
\<close>

lemma language_lines_ok:
  "map_of (snd e) ''files_count'' \<noteq> None \<Longrightarrow> \<exists>ls. language_lines r e = Inr ls"
  by (auto simp: language_lines_def dict_index_def)

lemma collect_ok: "(\<forall>x \<in> set xs. \<exists>ls. f x = Inr ls) \<Longrightarrow> \<exists>ls. collect f xs = Inr ls"
proof (induction xs)
  case Nil
  then show ?case by simp
next
  case (Cons x xs)
  then obtain a b where "f x = Inr a" "collect f xs = Inr b" by auto
  then show ?case by simp
qed

lemma console_lines_ok:
  "\<exists>ls. console_lines r (detect_languages w) infra sugg tools = Inr ls"
proof -
  have "\<forall>e \<in> set (detect_languages w). \<exists>ls. language_lines r e = Inr ls"
    using language_details(2) language_lines_ok by blast
  then obtain ls where "collect (language_lines r) (detect_languages w) = Inr ls"
    using collect_ok by blast
  then show ?thesis by (simp add: console_lines_def)
qed

lemma console_report_ok:
  "format_type \<noteq> ''json'' \<Longrightarrow> \<exists>t. generate_report w format_type = Inr (Text t)"
proof -
  assume f: "format_type \<noteq> ''json''"
  from suggest_cases [of w] obtain sg where sg: "suggest_environment_isolation w = Inr sg"
    by blast
  from console_lines_ok obtain ls where
    "console_lines (repr_str w) (detect_languages w) (detect_infrastructure w) sg
       (check_security_tools w) = Inr ls"
    by blast
  with f sg show ?thesis by (simp add: generate_report_def Let_def)
qed

text \<open>
  The byte \<open>0x92\<close> occurs in the header of the suggestions section (in its emoji) and in no
  other fixed line of the report.
\<close>

lemma tool_lines_bytes: "CHR 0x92 \<notin> \<Union> (set ` set (map tool_line (check_security_tools w)))"
  by (simp add: check_security_tools_def tool_line_def check_mark_def cross_mark_def)

lemma bare_report_bytes:
  "CHR 0x92 \<notin> set (join_with [CHR 0x0A]
      ([report_title, replicate 50 (CHR ''=''), languages_header, security_header]
         @ map tool_line (check_security_tools w)))"
proof -
  have "CHR 0x92 \<notin> set [CHR 0x0A] \<union> \<Union> (set ` set
      ([report_title, replicate 50 (CHR ''=''), languages_header, security_header]
         @ map tool_line (check_security_tools w)))"
    using tool_lines_bytes [of w]
    by (simp add: report_title_def languages_header_def security_header_def)
  with set_join_with show ?thesis by blast
qed

text \<open>
  C7. For a root where \<^verbatim>\<open>detect_languages\<close> and \<^verbatim>\<open>detect_infrastructure\<close> both return the empty
  dictionary, \<^verbatim>\<open>suggest_environment_isolation\<close> returns the empty dictionary, and the console
  report is produced and does not contain the header of the suggestions section.
\<close>

theorem no_findings_no_suggestions:
  "detect_languages w = [] \<Longrightarrow> detect_infrastructure w = [] \<Longrightarrow>
     suggest_environment_isolation w = Inr []
     \<and> (\<exists>t. generate_report w ''console'' = Inr (Text t) \<and> \<not> sublist suggestions_header t)"
proof -
  assume l: "detect_languages w = []" and i: "detect_infrastructure w = []"
  then have s: "suggest_environment_isolation w = Inr []"
    by (simp add: suggest_environment_isolation_def has_key_def)
  let ?t = "join_with [CHR 0x0A]
      ([report_title, replicate 50 (CHR ''=''), languages_header, security_header]
         @ map tool_line (check_security_tools w))"
  from l i s have r: "generate_report w ''console'' = Inr (Text ?t)"
    by (simp add: generate_report_def console_lines_def)
  have "CHR 0x92 \<in> set suggestions_header"
    by (simp add: suggestions_header_def)
  with bare_report_bytes [of w] have "\<not> set suggestions_header \<subseteq> set ?t" by blast
  then have "\<not> sublist suggestions_header ?t"
    using set_mono_sublist by blast
  with s r show ?thesis by blast
qed

theorem no_findings_no_suggestions_witness:
  "detect_languages bare = [] \<and> detect_infrastructure bare = []
   \<and> suggest_environment_isolation bare = Inr []
   \<and> (\<exists>t. generate_report bare ''console'' = Inr (Text t) \<and> \<not> sublist suggestions_header t)"
proof -
  have l: "detect_languages bare = []" by code_simp
  have i: "detect_infrastructure bare = []" by code_simp
  from l i no_findings_no_suggestions [OF l i] show ?thesis by simp
qed

section \<open>Failing commands\<close>








section \<open>The front-end framework\<close>

lemma framework_first:
  "(if ''react'' \<in> set deps then Some ''react''
    else if ''vue'' \<in> set deps then Some ''vue''
    else if ''@angular/core'' \<in> set deps then Some ''angular''
    else if ''svelte'' \<in> set deps then Some ''svelte''
    else None) = first_framework framework_priority deps"
  by (simp add: framework_priority_def)

lemma json_get_section:
  "section_of kvs key = Some d \<Longrightarrow> json_get (JObj kvs) key = Inr (JObj d)"
  by (auto simp: section_of_def json_get_def split: option.splits json.splits)

lemma framework_of_sections:
  "section_of kvs ''dependencies'' = Some ds \<Longrightarrow> section_of kvs ''devDependencies'' = Some es \<Longrightarrow>
     framework_of (JObj kvs) = Inr (first_framework framework_priority (map fst ds @ map fst es))"
  using framework_first [of "map fst ds @ map fst es"]
  by (simp add: framework_of_def json_get_section merged_keys_def)

text \<open>
  C6, as the claim states it: a \<^verbatim>\<open>package.json\<close> whose dependencies include \<^verbatim>\<open>react\<close> gives the
  framework \<^verbatim>\<open>react\<close>. With \<^verbatim>\<open>devDependencies\<close> an array the merge of the two sections raises,
  the exception is swallowed and no framework is reported.
\<close>

theorem react_lost_to_malformed_section:
  "exists_path react_with_list [''package.json'']
   \<and> package_json_load react_with_list
       = Some (JObj [(''dependencies'', JObj [(''react'', JStr ''18.2.0'')]),
                     (''devDependencies'', JArr [])])
   \<and> detect_js_framework react_with_list = None
   \<and> finding_field react_with_list ''nodejs'' ''framework'' = Some PNone"
  by code_simp

text \<open>
  C6, amended. For a root with a \<^verbatim>\<open>package.json\<close> that loads as an object in which
  \<^verbatim>\<open>dependencies\<close> and \<^verbatim>\<open>devDependencies\<close>, where present, are both objects: the framework is the
  first of \<^verbatim>\<open>react\<close>, \<^verbatim>\<open>vue\<close>, \<^verbatim>\<open>@angular/core\<close> (reported as \<^verbatim>\<open>angular\<close>), \<^verbatim>\<open>svelte\<close> that is a
  key of either section; so it is \<^verbatim>\<open>react\<close> whenever \<^verbatim>\<open>react\<close> is among them, also next to
  \<^verbatim>\<open>vue\<close>. It is the \<^verbatim>\<open>framework\<close> field of the nodejs finding.
\<close>

theorem js_framework_priority:
  "exists_path w [''package.json''] \<Longrightarrow> package_json_load w = Some (JObj kvs) \<Longrightarrow>
   section_of kvs ''dependencies'' = Some ds \<Longrightarrow> section_of kvs ''devDependencies'' = Some es \<Longrightarrow>
     detect_js_framework w = first_framework framework_priority (map fst ds @ map fst es)
     \<and> (''react'' \<in> set (map fst ds) \<union> set (map fst es) \<longrightarrow> detect_js_framework w = Some ''react'')
     \<and> finding_field w ''nodejs'' ''framework'' = Some (opt_str (detect_js_framework w))"
proof -
  assume e: "exists_path w [''package.json'']" and l: "package_json_load w = Some (JObj kvs)"
    and d: "section_of kvs ''dependencies'' = Some ds"
    and v: "section_of kvs ''devDependencies'' = Some es"
  from e l framework_of_sections [OF d v]
  have a: "detect_js_framework w = first_framework framework_priority (map fst ds @ map fst es)"
    by (simp add: detect_js_framework_def)
  have b: "''react'' \<in> set (map fst ds) \<union> set (map fst es) \<longrightarrow> detect_js_framework w = Some ''react''"
    unfolding a by (simp add: framework_priority_def)
  from e have c: "finding_field w ''nodejs'' ''framework'' = Some (opt_str (detect_js_framework w))"
    by (simp add: finding_field_def map_of_nodejs)
  from a b c show ?thesis by blast
qed

theorem js_framework_priority_witness:
  "exists_path yarn_project [''package.json'']
   \<and> package_json_load yarn_project
       = Some (JObj [(''name'', JStr ''demo''),
                     (''dependencies'', JObj [(''vue'', JStr ''3.4.0''), (''react'', JStr ''18.2.0'')])])
   \<and> detect_js_framework yarn_project = Some ''react''
   \<and> finding_field yarn_project ''nodejs'' ''framework'' = Some (PStr ''react'')"
proof -
  let ?kvs = "[(''name'', JStr ''demo''),
               (''dependencies'', JObj [(''vue'', JStr ''3.4.0''), (''react'', JStr ''18.2.0'')])]"
  have e: "exists_path yarn_project [''package.json'']" by code_simp
  have l: "package_json_load yarn_project = Some (JObj ?kvs)"
    by (simp add: yarn_project_def bare_def)
  have d: "section_of ?kvs ''dependencies''
             = Some [(''vue'', JStr ''3.4.0''), (''react'', JStr ''18.2.0'')]"
    by (simp add: section_of_def)
  have v: "section_of ?kvs ''devDependencies'' = Some []"
    by (simp add: section_of_def)
  from js_framework_priority [OF e l d v]
  have "detect_js_framework yarn_project = Some ''react''"
    "finding_field yarn_project ''nodejs'' ''framework''
       = Some (opt_str (detect_js_framework yarn_project))"
    by (simp_all add: framework_priority_def)
  with e l show ?thesis by (simp add: opt_str_def)
qed

text \<open>In the other cases no framework is reported.\<close>

lemma js_framework_none:
  "\<not> exists_path w [''package.json''] \<Longrightarrow> detect_js_framework w = None"
  "package_json_load w = None \<Longrightarrow> detect_js_framework w = None"
  "package_json_load w = Some (JObj kvs) \<Longrightarrow>
     section_of kvs ''dependencies'' = None \<or> section_of kvs ''devDependencies'' = None \<Longrightarrow>
     detect_js_framework w = None"
  by (auto simp: detect_js_framework_def framework_of_def json_get_def merged_keys_def
      section_of_def split: option.splits json.splits sum.splits)

section \<open>The structured report\<close>

text \<open>When \<^verbatim>\<open>json.dumps\<close> succeeds on a list and on a dictionary.\<close>

lemma those_map_Some: "(\<forall>x \<in> set xs. \<exists>y. f x = Some y) \<Longrightarrow> \<exists>ys. those (map f xs) = Some ys"
  by (induction xs) auto

lemma those_map_None: "x \<in> set xs \<Longrightarrow> f x = None \<Longrightarrow> those (map f xs) = None"
  by (induction xs) (auto split: option.splits)

lemma to_json_dict_ok:
  assumes "\<forall>kv \<in> set kvs. \<exists>j. to_json (snd kv) = Some j"
  shows "\<exists>js. to_json (PDict kvs) = Some (JObj js)"
proof -
  from assms have "\<forall>kv \<in> set kvs. \<exists>y. map_option (Pair (fst kv)) (to_json (snd kv)) = Some y"
    by auto
  from those_map_Some [OF this] show ?thesis by auto
qed

lemma to_json_dict_None:
  "kv \<in> set kvs \<Longrightarrow> to_json (snd kv) = None \<Longrightarrow> to_json (PDict kvs) = None"
  using those_map_None [of kv kvs "\<lambda>kv. map_option (Pair (fst kv)) (to_json (snd kv))"]
  by simp

lemma to_json_list_ok:
  "(\<forall>v \<in> set vs. \<exists>j. to_json v = Some j) \<Longrightarrow> \<exists>j. to_json (PList vs) = Some j"
  using those_map_Some [of vs to_json] by auto

lemma to_json_list_None: "v \<in> set vs \<Longrightarrow> to_json v = None \<Longrightarrow> to_json (PList vs) = None"
  using those_map_None [of v vs to_json] by simp

lemma to_json_opt_str: "\<exists>j. to_json (opt_str x) = Some j"
  by (cases x) (simp_all add: opt_str_def)

lemma to_json_strings: "\<exists>j. to_json (PList (map (\<lambda>x. PStr (f x)) xs)) = Some j"
  by (rule to_json_list_ok) auto

lemma dict_of_ok:
  assumes "\<forall>e \<in> set d. \<forall>kv \<in> set (snd e). \<exists>j. to_json (snd kv) = Some j"
  shows "\<exists>js. to_json (dict_of d) = Some (JObj js)"
  unfolding dict_of_def
proof (rule to_json_dict_ok, rule ballI)
  fix kv assume "kv \<in> set (map (\<lambda>kv. (fst kv, PDict (snd kv))) d)"
  then obtain e where e: "e \<in> set d" "kv = (fst e, PDict (snd e))" by auto
  with assms have "\<forall>kv \<in> set (snd e). \<exists>j. to_json (snd kv) = Some j" by blast
  from to_json_dict_ok [OF this] e show "\<exists>j. to_json (snd kv) = Some j" by auto
qed

text \<open>Every finding but the docker one holds serializable values only.\<close>

lemma languages_serializable:
  "\<exists>js. to_json (dict_of (detect_languages w)) = Some (JObj js)"
proof (rule dict_of_ok, intro ballI)
  fix e kv assume e: "e \<in> set (detect_languages w)" and kv: "kv \<in> set (snd e)"
  from e consider "e \<in> set (python_entry w)" | "e \<in> set (nodejs_entry w)"
    | "e \<in> set (go_entry w)" | "e \<in> set (rust_entry w)"
    by (auto simp: detect_languages_def)
  then show "\<exists>j. to_json (snd kv) = Some j"
  proof cases
    case 1 with kv show ?thesis
      using to_json_opt_str by (auto simp: python_entry_def Let_def split: if_splits)
  next
    case 2 with kv show ?thesis
      using to_json_opt_str by (auto simp: nodejs_entry_def Let_def split: if_splits)
  next
    case 3 with kv show ?thesis
      using to_json_opt_str by (auto simp: go_entry_def Let_def split: if_splits)
  next
    case 4 with kv show ?thesis
      using to_json_opt_str by (auto simp: rust_entry_def Let_def split: if_splits)
  qed
qed

lemma git_ci_serializable:
  "e \<in> set (git_entry w @ ci_entry w) \<Longrightarrow> kv \<in> set (snd e) \<Longrightarrow> \<exists>j. to_json (snd kv) = Some j"
  using to_json_opt_str to_json_strings [of rel_str]
  by (auto simp: git_entry_def ci_entry_def Let_def split: if_splits)

lemma suggestions_serializable:
  "\<exists>js. to_json (PDict (map (\<lambda>kv. (fst kv, PList (map PStr (snd kv)))) sg)) = Some (JObj js)"
proof (rule to_json_dict_ok, rule ballI)
  fix kv assume "kv \<in> set (map (\<lambda>kv. (fst kv, PList (map PStr (snd kv)))) sg)"
  then obtain e where "kv = (fst e, PList (map PStr (snd e)))" by auto
  with to_json_strings [of "\<lambda>x. x" "snd e"] show "\<exists>j. to_json (snd kv) = Some j" by simp
qed

lemma tools_serializable:
  "\<exists>js. to_json (PDict (map (\<lambda>kv. (fst kv, PBool (snd kv))) ts)) = Some (JObj js)"
  by (rule to_json_dict_ok) auto


lemma infrastructure_serializable:
  assumes "docker_files w = []"
  shows "\<exists>js. to_json (dict_of (detect_infrastructure w)) = Some (JObj js)"
proof (rule dict_of_ok, intro ballI)
  fix e kv assume "e \<in> set (detect_infrastructure w)" and kv: "kv \<in> set (snd e)"
  with assms have "e \<in> set (git_entry w @ ci_entry w)"
    by (simp add: detect_infrastructure_def docker_entry_def)
  from git_ci_serializable [OF this kv] show "\<exists>j. to_json (snd kv) = Some j" .
qed

text \<open>
  Without a container file the structured report is a document with exactly the four keys
  \<^verbatim>\<open>languages\<close>, \<^verbatim>\<open>infrastructure\<close>, \<^verbatim>\<open>suggestions\<close>, \<^verbatim>\<open>security_tools\<close>.
\<close>

lemma json_report_without_docker:
  assumes "docker_files w = []"
  shows "\<exists>l i s t. generate_report w ''json'' =
           Inr (Document (JObj [(''languages'', JObj l), (''infrastructure'', JObj i),
                                (''suggestions'', JObj s), (''security_tools'', JObj t)]))"
proof -
  from suggest_cases [of w] obtain sg where sg: "suggest_environment_isolation w = Inr sg"
    by blast
  from languages_serializable obtain l where
    l: "to_json (dict_of (detect_languages w)) = Some (JObj l)" by blast
  from infrastructure_serializable [OF assms] obtain i where
    i: "to_json (dict_of (detect_infrastructure w)) = Some (JObj i)" by blast
  from suggestions_serializable obtain s where
    s: "to_json (PDict (map (\<lambda>kv. (fst kv, PList (map PStr (snd kv)))) sg)) = Some (JObj s)"
    by blast
  from tools_serializable obtain t where
    t: "to_json (PDict (map (\<lambda>kv. (fst kv, PBool (snd kv))) (check_security_tools w)))
          = Some (JObj t)"
    by blast
  have "generate_report w ''json'' =
           Inr (Document (JObj [(''languages'', JObj l), (''infrastructure'', JObj i),
                                (''suggestions'', JObj s), (''security_tools'', JObj t)]))"
    unfolding generate_report_def Let_def json_dumps_def sg to_json.simps
    by (simp add: l i s t del: to_json.simps)
  then show ?thesis by blast
qed

text \<open>
  Every file the three container patterns match goes into \<^verbatim>\<open>compose_files\<close> or into
  \<^verbatim>\<open>dockerfiles\<close>, as a \<^verbatim>\<open>Path\<close> object: with any container file the structured report raises.
\<close>

lemma glob_prefix:
  "CHR ''*'' \<notin> set lit \<Longrightarrow> glob_match (lit @ p) s \<longleftrightarrow> (\<exists>t. s = lit @ t \<and> glob_match p t)"
proof (induction lit arbitrary: s)
  case Nil
  then show ?case by simp
next
  case (Cons c lit)
  then show ?case by (cases s) auto
qed

lemma dockerfile_name: "glob_match ''Dockerfile*'' n \<Longrightarrow> prefix ''Dockerfile'' n"
  using glob_prefix [of "''Dockerfile''" "''*''" n] by (auto simp: prefix_def)

lemma compose_name:
  assumes "glob_match (''docker-compose'' @ p) n"
  shows "sublist ''compose'' n"
proof -
  from assms glob_prefix [of "''docker-compose''" p n]
  obtain t where "n = ''docker-compose'' @ t" by auto
  then have "n = ''docker-'' @ ''compose'' @ t" by simp
  then show ?thesis unfolding sublist_def by blast
qed

lemma docker_file_kind:
  assumes "f \<in> set (docker_files w)"
  shows "prefix ''Dockerfile'' (path_name f) \<or> sublist ''compose'' (path_name f)"
proof -
  from assms have "glob_match ''Dockerfile*'' (path_name f)
      \<or> glob_match ''docker-compose*.yml'' (path_name f)
      \<or> glob_match ''docker-compose*.yaml'' (path_name f)"
    by (auto simp: docker_files_def rglob_def)
  then show ?thesis
    using dockerfile_name [of "path_name f"] compose_name [of "''*.yml''" "path_name f"]
      compose_name [of "''*.yaml''" "path_name f"]
    by auto
qed

lemma docker_entry_not_serializable:
  assumes "docker_files w \<noteq> []"
  shows "to_json (dict_of (detect_infrastructure w)) = None"
proof -
  from assms obtain f where f: "f \<in> set (docker_files w)" by (cases "docker_files w") auto
  let ?compose = "PList (map (\<lambda>f. PPath (abs_str w f))
      (filter (\<lambda>f. sublist ''compose'' (path_name f)) (docker_files w)))"
  let ?dockerfiles = "PList (map (\<lambda>f. PPath (abs_str w f))
      (filter (\<lambda>f. prefix ''Dockerfile'' (path_name f)) (docker_files w)))"
  let ?d = "[(''files'', PList (map (\<lambda>f. PStr (rel_str f)) (docker_files w))),
             (''compose_files'', ?compose), (''dockerfiles'', ?dockerfiles)]"
  have "to_json ?compose = None \<or> to_json ?dockerfiles = None"
  proof (cases "sublist ''compose'' (path_name f)")
    case True
    with f have "PPath (abs_str w f) \<in> set (map (\<lambda>f. PPath (abs_str w f))
      (filter (\<lambda>f. sublist ''compose'' (path_name f)) (docker_files w)))" by auto
    from to_json_list_None [OF this] show ?thesis by simp
  next
    case False
    with docker_file_kind [OF f] have "prefix ''Dockerfile'' (path_name f)" by simp
    with f have "PPath (abs_str w f) \<in> set (map (\<lambda>f. PPath (abs_str w f))
      (filter (\<lambda>f. prefix ''Dockerfile'' (path_name f)) (docker_files w)))" by auto
    from to_json_list_None [OF this] show ?thesis by simp
  qed
  then have d: "to_json (PDict ?d) = None"
  proof
    assume "to_json ?compose = None"
    with to_json_dict_None [of "(''compose_files'', ?compose)" ?d] show ?thesis
      by (simp del: to_json.simps)
  next
    assume "to_json ?dockerfiles = None"
    with to_json_dict_None [of "(''dockerfiles'', ?dockerfiles)" ?d] show ?thesis
      by (simp del: to_json.simps)
  qed
  from assms have "(''docker'', PDict ?d)
      \<in> set (map (\<lambda>kv. (fst kv, PDict (snd kv))) (detect_infrastructure w))"
    by (simp add: detect_infrastructure_def docker_entry_def image_iff)
  from to_json_dict_None [OF this] d show ?thesis by (simp add: dict_of_def del: to_json.simps)
qed

lemma json_report_with_docker:
  assumes "docker_files w \<noteq> []"
  shows "generate_report w ''json'' = Inl TypeError"
proof -
  from suggest_cases [of w] obtain sg where sg: "suggest_environment_isolation w = Inr sg"
    by blast
  from languages_serializable obtain l where
    l: "to_json (dict_of (detect_languages w)) = Some (JObj l)" by blast
  note i = docker_entry_not_serializable [OF assms]
  show ?thesis
    unfolding generate_report_def Let_def json_dumps_def sg to_json.simps
    by (simp add: l i del: to_json.simps)
qed

text \<open>
  C3. The claim: in the \<^verbatim>\<open>json\<close> format \<^verbatim>\<open>generate_report\<close> succeeds for every root, also where the
  docker lists are not empty. On the root that holds a \<^verbatim>\<open>Dockerfile\<close> alone the call raises
  \<^verbatim>\<open>TypeError\<close>: the \<^verbatim>\<open>files\<close> list is converted with \<^verbatim>\<open>str\<close>, the \<^verbatim>\<open>compose_files\<close> and
  \<^verbatim>\<open>dockerfiles\<close> lists keep the \<^verbatim>\<open>Path\<close> objects. The console format works on the same root.
\<close>

theorem json_report_type_error:
  "docker_files dockerfile_only = [[''Dockerfile'']]
   \<and> generate_report dockerfile_only ''json'' = Inl TypeError
   \<and> generate_report dockerfile_only ''console'' \<noteq> Inl TypeError"
  by code_simp

end
